theory Spec2Isabelle
  imports Main "HOL-Library.Word"
begin

section \<open>Shared vocabulary\<close>

text \<open>
  The names the code reads from package \<^verbatim>\<open>constants\<close> of \<^verbatim>\<open>go-vela/types\<close>. That package
  is a dependency and not part of the sources at hand, so the values are a parameter of
  every function that reads one of them.
\<close>

record constants =
  DriverGithub :: string
  DriverGitlab :: string
  DriverPostgres :: string
  DriverSqlite :: string
  TableHook :: string

text \<open>
  Go's \<^verbatim>\<open>error\<close> values. \<open>Errorf\<close> is an error built by \<^verbatim>\<open>fmt.Errorf\<close> and carries the
  formatted message; the others are the failures of the SQL layer.
\<close>

datatype error =
    Errorf string
  | ErrRecordNotFound
  | ErrNoSuchTable string
  | ErrTableExists string
  | ErrSyntax string
  | ErrUniqueViolation string string

section \<open>source/setup.go\<close>

record Setup =
  Driver :: string
  Address :: string
  ClientID :: string
  ClientSecret :: string
  ServerAddress :: string
  StatusContext :: string
  WebUIAddress :: string

text \<open>The interface \<^verbatim>\<open>Service\<close>; its nil value is \<open>None\<close> of \<open>Service option\<close>.\<close>

typedecl Service

text \<open>\<^verbatim>\<open>strings.HasPrefix\<close>, \<^verbatim>\<open>strings.HasSuffix\<close> and \<^verbatim>\<open>strings.Contains\<close> of Go.\<close>

definition HasPrefix :: "string \<Rightarrow> string \<Rightarrow> bool" where
  "HasPrefix s pre = (length pre \<le> length s \<and> take (length pre) s = pre)"

definition HasSuffix :: "string \<Rightarrow> string \<Rightarrow> bool" where
  "HasSuffix s suf = (length suf \<le> length s \<and> drop (length s - length suf) s = suf)"

fun Contains :: "string \<Rightarrow> string \<Rightarrow> bool" where
  "Contains [] substr = (substr = [])"
| "Contains (c # cs) substr = (HasPrefix (c # cs) substr \<or> Contains cs substr)"

definition Gitlab :: "constants \<Rightarrow> Setup \<Rightarrow> Service option \<times> error option" where
  "Gitlab K s = (None, Some (Errorf (''unsupported source driver: '' @ DriverGitlab K)))"

definition Validate :: "constants \<Rightarrow> Setup \<Rightarrow> error option" where
  "Validate K s =
    (if length (Driver s) = 0 then Some (Errorf ''no source driver provided'')
     else if \<not> (Driver s = DriverGithub K \<or> Driver s = DriverGitlab K)
       then Some (Errorf (''invalid source driver provided: '' @ Driver s))
     else if length (Address s) = 0 then Some (Errorf ''no source address provided'')
     else if \<not> Contains (Address s) ''://''
       then Some (Errorf ''source address must be fully qualified (<scheme>://<host>)'')
     else if HasSuffix (Address s) ''/''
       then Some (Errorf ''source address must not have trailing slash'')
     else if length (ClientID s) = 0 then Some (Errorf ''no source client id provided'')
     else if length (ClientSecret s) = 0
       then Some (Errorf ''no source client secret provided'')
     else if length (StatusContext s) = 0
       then Some (Errorf ''no source status context provided'')
     else None)"

section \<open>The SQL layer\<close>

text \<open>
  The engines reach the backend through a \<^verbatim>\<open>*gorm.DB\<close>. gorm and the two SQL engines are
  dependencies, so only what the code relies on is modelled: a backend holds named tables, a
  table holds its uniqueness constraints, its rows in insertion order and the last
  identifier it handed out; a row maps column names to values; every statement sent to the
  backend is recorded, with its arguments, in \<open>db_trace\<close>.
\<close>

type_synonym int64 = "64 word"

type_synonym byte = "8 word"

datatype val = VNull | VInt int64 | VText string | VBlob "byte list" | VBool bool

type_synonym row = "(string \<times> val) list"

record table =
  tbl_unique :: "string list"
  tbl_rows :: "row list"
  tbl_seq :: int64

record db =
  db_tables :: "string \<rightharpoonup> table"
  db_trace :: "(string \<times> val list) list"

definition col :: "row \<Rightarrow> string \<Rightarrow> val" where
  "col r c = (case map_of r c of None \<Rightarrow> VNull | Some v \<Rightarrow> v)"

fun set_col :: "string \<Rightarrow> val \<Rightarrow> row \<Rightarrow> row" where
  "set_col c v [] = [(c, v)]"
| "set_col c v ((k, w) # r) = (if k = c then (c, v) # r else (k, w) # set_col c v r)"

text \<open>SQL's \<^verbatim>\<open>=\<close>: a comparison with \<^verbatim>\<open>NULL\<close> never holds.\<close>

definition sql_eq :: "val \<Rightarrow> val \<Rightarrow> bool" where
  "sql_eq v w = (v \<noteq> VNull \<and> w \<noteq> VNull \<and> v = w)"

definition log_stmt :: "string \<Rightarrow> val list \<Rightarrow> db \<Rightarrow> db" where
  "log_stmt sql args d = d\<lparr>db_trace := db_trace d @ [(sql, args)]\<rparr>"

subsection \<open>Data definition statements\<close>

definition is_space :: "char \<Rightarrow> bool" where
  "is_space c = (c = CHR '' '' \<or> c = CHR 0x09 \<or> c = CHR 0x0A \<or> c = CHR 0x0D)"

definition is_punct :: "char \<Rightarrow> bool" where
  "is_punct c = (c = CHR ''('' \<or> c = CHR '')'' \<or> c = CHR '','' \<or> c = CHR '';'')"

definition flush :: "string \<Rightarrow> string list" where
  "flush cur = (if cur = [] then [] else [cur])"

text \<open>
  The words of a statement: white space separates them, and each parenthesis, comma and
  semicolon is a word of its own.
\<close>

fun tokens :: "string \<Rightarrow> string \<Rightarrow> string list" where
  "tokens cur [] = flush cur"
| "tokens cur (c # cs) =
     (if is_space c then flush cur @ tokens [] cs
      else if is_punct c then flush cur @ [c] # tokens [] cs
      else tokens (cur @ [c]) cs)"

text \<open>
  \<^verbatim>\<open>CREATE TABLE [IF NOT EXISTS] name ...\<close>: whether the guard is present, the table's name and
  the words after it.
\<close>

definition parse_create :: "string list \<Rightarrow> (bool \<times> string \<times> string list) option" where
  "parse_create ts =
    (if take 5 ts = [''CREATE'', ''TABLE'', ''IF'', ''NOT'', ''EXISTS''] then
       (case drop 5 ts of [] \<Rightarrow> None | name # body \<Rightarrow> Some (True, name, body))
     else if take 2 ts = [''CREATE'', ''TABLE''] then
       (case drop 2 ts of [] \<Rightarrow> None | name # body \<Rightarrow> Some (False, name, body))
     else None)"

text \<open>The columns named by a table constraint \<^verbatim>\<open>UNIQUE(column)\<close>.\<close>

fun unique_columns :: "string list \<Rightarrow> string list" where
  "unique_columns (a # b # c # d # ts) =
     (if a = ''UNIQUE'' \<and> b = ''('' \<and> d = '')'' then c # unique_columns ts
      else unique_columns (b # c # d # ts))"
| "unique_columns ts = []"

text \<open>
  \<^verbatim>\<open>(*gorm.DB).Exec\<close> on a data definition statement, returning \<^verbatim>\<open>.Error\<close>. Creating a table
  that exists is an error unless the statement carries the guard, in which case nothing
  changes.
\<close>

definition Exec :: "string \<Rightarrow> db \<Rightarrow> error option \<times> db" where
  "Exec sql d =
    (let d' = log_stmt sql [] d in
     case parse_create (tokens [] sql) of
       None \<Rightarrow> (Some (ErrSyntax sql), d')
     | Some (guard, name, body) \<Rightarrow>
         (case db_tables d name of
            Some t \<Rightarrow> if guard then (None, d') else (Some (ErrTableExists name), d')
          | None \<Rightarrow>
              (None, d'\<lparr>db_tables := (db_tables d)(name \<mapsto>
                 \<lparr>tbl_unique = unique_columns body, tbl_rows = [], tbl_seq = 0\<rparr>)\<rparr>)))"

subsection \<open>Queries\<close>

text \<open>
  The statement a chain of \<^verbatim>\<open>Table(...)\<close> and \<^verbatim>\<open>Where(...)\<close> calls builds: the table and
  the conditions, each with its argument.
\<close>

record statement =
  st_table :: string
  st_where :: "(string \<times> val) list"

definition Table :: "string \<Rightarrow> statement" where
  "Table name = \<lparr>st_table = name, st_where = []\<rparr>"

definition Where :: "string \<Rightarrow> val \<Rightarrow> statement \<Rightarrow> statement" where
  "Where cond arg st = st\<lparr>st_where := st_where st @ [(cond, arg)]\<rparr>"

text \<open>A condition has the form \<^verbatim>\<open>column = ?\<close>; anything else is a syntax error.\<close>

definition where_column :: "string \<Rightarrow> string option" where
  "where_column cond =
    (if 4 < length cond \<and> HasSuffix cond '' = ?''
     then Some (take (length cond - 4) cond) else None)"

fun where_columns :: "(string \<times> val) list \<Rightarrow> (string \<times> val) list option" where
  "where_columns [] = Some []"
| "where_columns ((cond, arg) # ws) =
     (case where_column cond of
        None \<Rightarrow> None
      | Some c \<Rightarrow> (case where_columns ws of None \<Rightarrow> None | Some ps \<Rightarrow> Some ((c, arg) # ps)))"

definition matches :: "(string \<times> val) list \<Rightarrow> row \<Rightarrow> bool" where
  "matches ps r = list_all (\<lambda>(c, arg). sql_eq (col r c) arg) ps"

fun join :: "string \<Rightarrow> string list \<Rightarrow> string" where
  "join sep [] = []"
| "join sep [x] = x"
| "join sep (x # y # ys) = x @ sep @ join sep (y # ys)"

definition select_sql :: "string \<Rightarrow> statement \<Rightarrow> string \<Rightarrow> string" where
  \<open>select_sql what st rest =
    ''SELECT '' @ what @ '' FROM "'' @ st_table st @ ''"''
    @ (if st_where st = [] then [] else '' WHERE '' @ join '' AND '' (map fst (st_where st)))
    @ rest\<close>

definition insert_sql :: "string \<Rightarrow> row \<Rightarrow> string" where
  \<open>insert_sql name r =
    ''INSERT INTO "'' @ name @ ''" ('' @ join '','' (map fst r) @ '') VALUES (''
    @ join '','' (map (\<lambda>_. ''?'') r) @ '')''\<close>

definition select_rows :: "statement \<Rightarrow> string \<Rightarrow> db \<Rightarrow> error + row list" where
  "select_rows st sql d =
    (case where_columns (st_where st) of
       None \<Rightarrow> Inl (ErrSyntax sql)
     | Some ps \<Rightarrow>
         (case db_tables d (st_table st) of
            None \<Rightarrow> Inl (ErrNoSuchTable (st_table st))
          | Some t \<Rightarrow> Inr (filter (matches ps) (tbl_rows t))))"

text \<open>
  \<^verbatim>\<open>Count(&h)\<close> followed by \<^verbatim>\<open>.Error\<close>: the variable keeps its value when the query fails.
\<close>

definition Count :: "statement \<Rightarrow> int64 \<Rightarrow> db \<Rightarrow> (int64 \<times> error option) \<times> db" where
  "Count st h d =
    (let sql = select_sql ''count(*)'' st [];
         d' = log_stmt sql (map snd (st_where st)) d in
     case select_rows st sql d of
       Inl err \<Rightarrow> ((h, Some err), d')
     | Inr rs \<Rightarrow> ((word_of_nat (length rs), None), d'))"

text \<open>\<^verbatim>\<open>Take\<close>: the first matching row, or the record-not-found error.\<close>

definition Take :: "statement \<Rightarrow> db \<Rightarrow> (error + row) \<times> db" where
  "Take st d =
    (let sql = select_sql ''*'' st '' LIMIT 1'';
         d' = log_stmt sql (map snd (st_where st)) d in
     case select_rows st sql d of
       Inl err \<Rightarrow> (Inl err, d')
     | Inr [] \<Rightarrow> (Inl ErrRecordNotFound, d')
     | Inr (r # rs) \<Rightarrow> (Inr r, d'))"

text \<open>\<^verbatim>\<open>Find\<close>: every matching row, in the table's order.\<close>

definition Find :: "statement \<Rightarrow> db \<Rightarrow> (error + row list) \<times> db" where
  "Find st d =
    (let sql = select_sql ''*'' st [];
         d' = log_stmt sql (map snd (st_where st)) d in
     (select_rows st sql d, d'))"

text \<open>
  \<^verbatim>\<open>Create\<close>: the backend assigns the next identifier of the table to column \<^verbatim>\<open>id\<close>, refuses
  the row when it repeats the value of an existing row in a column declared unique, and
  appends it otherwise.
\<close>

definition violated :: "table \<Rightarrow> row \<Rightarrow> string option" where
  "violated t r =
    find (\<lambda>u. list_ex (\<lambda>old. sql_eq (col old u) (col r u)) (tbl_rows t)) (tbl_unique t)"

definition Create :: "string \<Rightarrow> row \<Rightarrow> db \<Rightarrow> (error + row) \<times> db" where
  "Create name r d =
    (let d' = log_stmt (insert_sql name r) (map snd r) d in
     case db_tables d name of
       None \<Rightarrow> (Inl (ErrNoSuchTable name), d')
     | Some t \<Rightarrow>
         (let r' = set_col ''id'' (VInt (tbl_seq t + 1)) r in
          case violated t r' of
            Some u \<Rightarrow> (Inl (ErrUniqueViolation name u), d')
          | None \<Rightarrow>
              (Inr r', d'\<lparr>db_tables := (db_tables d)(name \<mapsto>
                 t\<lparr>tbl_rows := tbl_rows t @ [r'], tbl_seq := tbl_seq t + 1\<rparr>)\<rparr>)))"

text \<open>
  The \<^verbatim>\<open>engine\<close> struct of every database package: the client (the logger writes trace
  messages only and is left out).
\<close>

record engine =
  client :: db

definition with_client :: "(db \<Rightarrow> 'a \<times> db) \<Rightarrow> engine \<Rightarrow> 'a \<times> engine" where
  "with_client f e = (case f (client e) of (x, c) \<Rightarrow> (x, e\<lparr>client := c\<rparr>))"

section \<open>database/worker/table.go\<close>

definition unlines :: "string list \<Rightarrow> string" where
  "unlines ls = concat (map (\<lambda>l. l @ [CHR 0x0A]) ls)"

definition CreatePostgresTable :: string where
  "CreatePostgresTable = CHR 0x0A # unlines
    [''CREATE TABLE'',
     ''IF NOT EXISTS'',
     ''workers ('',
     CHR 0x09 # ''id               SERIAL PRIMARY KEY,'',
     CHR 0x09 # ''hostname         VARCHAR(250),'',
     CHR 0x09 # ''address          VARCHAR(250),'',
     CHR 0x09 # ''routes           VARCHAR(1000),'',
     CHR 0x09 # ''active           BOOLEAN,'',
     CHR 0x09 # ''last_checked_in  INTEGER,'',
     CHR 0x09 # ''build_limit      INTEGER,'',
     CHR 0x09 # ''UNIQUE(hostname)'',
     '');'']"

definition CreateSqliteTable :: string where
  "CreateSqliteTable = CHR 0x0A # unlines
    [''CREATE TABLE'',
     ''IF NOT EXISTS'',
     ''workers ('',
     CHR 0x09 # ''id              INTEGER PRIMARY KEY AUTOINCREMENT,'',
     CHR 0x09 # ''hostname        TEXT,'',
     CHR 0x09 # ''address         TEXT,'',
     CHR 0x09 # ''routes          TEXT,'',
     CHR 0x09 # ''active          BOOLEAN,'',
     CHR 0x09 # ''last_checked_in'' @ CHR 0x09 # ''INTEGER,'',
     CHR 0x09 # ''build_limit     INTEGER,'',
     CHR 0x09 # ''UNIQUE(hostname)'',
     '');'']"

definition CreateWorkerTable :: "constants \<Rightarrow> engine \<Rightarrow> string \<Rightarrow> error option \<times> engine" where
  "CreateWorkerTable K e driver =
    (if driver = DriverPostgres K then with_client (Exec CreatePostgresTable) e
     else if driver = DriverSqlite K then with_client (Exec CreateSqliteTable) e
     else with_client (Exec CreateSqliteTable) e)"

section \<open>database/hook/count_repo.go\<close>

text \<open>
  \<^verbatim>\<open>library.Repo\<close> of \<^verbatim>\<open>go-vela/types\<close>, as far as the function reads it: the fields are
  pointers, and the getters return the zero value for a nil field.
\<close>

record Repo =
  Repo_ID :: "int64 option"
  Repo_Org :: "string option"
  Repo_Name :: "string option"
  Repo_FullName :: "string option"

definition GetID :: "Repo \<Rightarrow> int64" where
  "GetID r = (case Repo_ID r of None \<Rightarrow> 0 | Some i \<Rightarrow> i)"

definition CountHooksForRepo :: "constants \<Rightarrow> engine \<Rightarrow> Repo \<Rightarrow> (int64 \<times> error option) \<times> engine" where
  "CountHooksForRepo K e r =
    (let h = 0 in
     with_client (Count (Where ''repo_id = ?'' (VInt (GetID r)) (Table (TableHook K))) h) e)"

section \<open>Entities, row codec and query engine\<close>

text \<open>
  The sources at hand hold the tests of the log and init engines, but not the engines, the
  row types or the entity types. Each definition of this section follows the specification
  (sections 3, 4.2, 4.3 and 6), on top of the SQL layer above, and says so.
\<close>

text \<open>Modelled from the spec: reading an integer column in the missing row codec; anything
  else than an integer reads as the zero default.\<close>

fun int_of :: "val \<Rightarrow> int64" where
  "int_of (VInt i) = i"
| "int_of v = 0"

text \<open>Modelled from the spec: reading a text column in the missing row codec.\<close>

fun text_of :: "val \<Rightarrow> string" where
  "text_of (VText s) = s"
| "text_of v = []"

text \<open>Modelled from the spec: reading a boolean column in the missing row codec.\<close>

fun bool_of :: "val \<Rightarrow> bool" where
  "bool_of (VBool b) = b"
| "bool_of v = False"

text \<open>Modelled from the spec: reading a byte-blob column in the missing row codec; a null
  column reads as the null blob, every other blob as it is.\<close>

fun blob_of :: "val \<Rightarrow> byte list option" where
  "blob_of (VBlob b) = Some b"
| "blob_of v = None"

text \<open>Modelled from the spec: writing a byte-blob column in the missing row codec,
  unmodified.\<close>

definition blob :: "byte list option \<Rightarrow> val" where
  "blob b = (case b of None \<Rightarrow> VNull | Some bs \<Rightarrow> VBlob bs)"

text \<open>
  Modelled from the spec: the Log entity, which the sources only use through its setters.
  A log has an id, a repo and a build, the four parent references (zero when unset) and
  the data, a byte blob that may be null.
\<close>

record Log =
  Log_ID :: int64
  Log_BuildID :: int64
  Log_RepoID :: int64
  Log_ServiceID :: int64
  Log_StepID :: int64
  Log_InitID :: int64
  Log_InitStepID :: int64
  Log_Data :: "byte list option"

text \<open>
  Modelled from the spec: encoding a log as a row (the row type of the log package is
  missing), over the columns
  \<^verbatim>\<open>logs(id, build_id, repo_id, service_id, step_id, init_id, init_step_id, data)\<close>.
\<close>

definition encode_log :: "Log \<Rightarrow> row" where
  "encode_log l =
    [(''id'', VInt (Log_ID l)), (''build_id'', VInt (Log_BuildID l)),
     (''repo_id'', VInt (Log_RepoID l)), (''service_id'', VInt (Log_ServiceID l)),
     (''step_id'', VInt (Log_StepID l)), (''init_id'', VInt (Log_InitID l)),
     (''init_step_id'', VInt (Log_InitStepID l)), (''data'', blob (Log_Data l))]"

text \<open>Modelled from the spec: decoding a row of the logs table (the row type of the log
  package is missing).\<close>

definition decode_log :: "row \<Rightarrow> Log" where
  "decode_log r =
    \<lparr>Log_ID = int_of (col r ''id''), Log_BuildID = int_of (col r ''build_id''),
     Log_RepoID = int_of (col r ''repo_id''), Log_ServiceID = int_of (col r ''service_id''),
     Log_StepID = int_of (col r ''step_id''), Log_InitID = int_of (col r ''init_id''),
     Log_InitStepID = int_of (col r ''init_step_id''), Log_Data = blob_of (col r ''data'')\<rparr>"

text \<open>
  Modelled from the spec: the Init entity, which the sources only use through its setters,
  with the attributes of \<^verbatim>\<open>inits(id, repo_id, build_id, number, reporter, name, mimetype)\<close>.
\<close>

record Init =
  Init_ID :: int64
  Init_RepoID :: int64
  Init_BuildID :: int64
  Init_Number :: int64
  Init_Reporter :: string
  Init_Name :: string
  Init_Mimetype :: string

text \<open>Modelled from the spec: encoding an init as a row (the row type of the init package
  is missing).\<close>

definition encode_init :: "Init \<Rightarrow> row" where
  "encode_init i =
    [(''id'', VInt (Init_ID i)), (''repo_id'', VInt (Init_RepoID i)),
     (''build_id'', VInt (Init_BuildID i)), (''number'', VInt (Init_Number i)),
     (''reporter'', VText (Init_Reporter i)), (''name'', VText (Init_Name i)),
     (''mimetype'', VText (Init_Mimetype i))]"

text \<open>Modelled from the spec: decoding a row of the inits table (the row type of the init
  package is missing).\<close>

definition decode_init :: "row \<Rightarrow> Init" where
  "decode_init r =
    \<lparr>Init_ID = int_of (col r ''id''), Init_RepoID = int_of (col r ''repo_id''),
     Init_BuildID = int_of (col r ''build_id''), Init_Number = int_of (col r ''number''),
     Init_Reporter = text_of (col r ''reporter''), Init_Name = text_of (col r ''name''),
     Init_Mimetype = text_of (col r ''mimetype'')\<rparr>"

text \<open>
  Modelled from the spec: the Worker entity (missing from the sources), with the attributes
  of \<^verbatim>\<open>workers(id, hostname, address, routes, active, last_checked_in, build_limit)\<close>.
\<close>

record Worker =
  Worker_ID :: int64
  Worker_Hostname :: string
  Worker_Address :: string
  Worker_Routes :: string
  Worker_Active :: bool
  Worker_LastCheckedIn :: int64
  Worker_BuildLimit :: int64

text \<open>Modelled from the spec: encoding a worker as a row (the row type of the worker
  package is missing).\<close>

definition encode_worker :: "Worker \<Rightarrow> row" where
  "encode_worker w =
    [(''id'', VInt (Worker_ID w)), (''hostname'', VText (Worker_Hostname w)),
     (''address'', VText (Worker_Address w)), (''routes'', VText (Worker_Routes w)),
     (''active'', VBool (Worker_Active w)),
     (''last_checked_in'', VInt (Worker_LastCheckedIn w)),
     (''build_limit'', VInt (Worker_BuildLimit w))]"

text \<open>Modelled from the spec: decoding a row of the workers table (the row type of the
  worker package is missing).\<close>

definition decode_worker :: "row \<Rightarrow> Worker" where
  "decode_worker r =
    \<lparr>Worker_ID = int_of (col r ''id''), Worker_Hostname = text_of (col r ''hostname''),
     Worker_Address = text_of (col r ''address''), Worker_Routes = text_of (col r ''routes''),
     Worker_Active = bool_of (col r ''active''),
     Worker_LastCheckedIn = int_of (col r ''last_checked_in''),
     Worker_BuildLimit = int_of (col r ''build_limit'')\<rparr>"

text \<open>Modelled from the spec: the four kinds of parent a log can belong to (the dispatch
  of the missing retrieval functions).\<close>

datatype parent_kind = ParentInit | ParentInitStep | ParentService | ParentStep

text \<open>Modelled from the spec: the foreign-key column of each parent kind (read by the
  missing retrieval functions).\<close>

fun parent_column :: "parent_kind \<Rightarrow> string" where
  "parent_column ParentInit = ''init_id''"
| "parent_column ParentInitStep = ''init_step_id''"
| "parent_column ParentService = ''service_id''"
| "parent_column ParentStep = ''step_id''"

text \<open>Modelled from the spec: the Service entity, which the sources only use through its
  setters; only its id takes part in a query.\<close>

record library_Service =
  Service_ID :: int64
  Service_RepoID :: int64
  Service_BuildID :: int64
  Service_Number :: int64

text \<open>
  Modelled from the spec: Create of the query engine for logs (\<^verbatim>\<open>CreateLog\<close> is called by
  the tests and missing from the sources): inserts the encoded row and returns the entity
  with the assigned id, or the error of the insert.
\<close>

definition CreateLog :: "Log \<Rightarrow> engine \<Rightarrow> (error + Log) \<times> engine" where
  "CreateLog l e =
    with_client (\<lambda>d. apfst (map_sum id decode_log) (Create ''logs'' (encode_log l) d)) e"

text \<open>
  Modelled from the spec: Create of the query engine for inits (\<^verbatim>\<open>CreateInit\<close> is called by
  the tests and missing from the sources), as for logs.
\<close>

definition CreateInit :: "Init \<Rightarrow> engine \<Rightarrow> (error + Init) \<times> engine" where
  "CreateInit i e =
    with_client (\<lambda>d. apfst (map_sum id decode_init) (Create ''inits'' (encode_init i) d)) e"

text \<open>
  Modelled from the spec: Create of the query engine for workers (\<^verbatim>\<open>CreateWorker\<close> is
  missing from the sources), as for logs; a duplicate of a unique key is the error of the
  insert.
\<close>

definition CreateWorker :: "Worker \<Rightarrow> engine \<Rightarrow> (error + Worker) \<times> engine" where
  "CreateWorker w e =
    with_client
      (\<lambda>d. apfst (map_sum id decode_worker) (Create ''workers'' (encode_worker w) d)) e"

text \<open>
  Modelled from the spec: GetForParent of the query engine (the retrieval functions of the
  log package are missing from the sources):
  \<^verbatim>\<open>SELECT * FROM logs WHERE <parent>_id = ? LIMIT 1\<close> with the parent's id, the row decoded,
  or the not-found condition.
\<close>

definition GetForParent :: "parent_kind \<Rightarrow> int64 \<Rightarrow> engine \<Rightarrow> (error + Log) \<times> engine" where
  "GetForParent k parent e =
    with_client
      (\<lambda>d. apfst (map_sum id decode_log)
         (Take (Where (parent_column k @ '' = ?'') (VInt parent) (Table ''logs'')) d)) e"

text \<open>Modelled from the spec: \<^verbatim>\<open>GetLogForService\<close>, called by the tests and missing from
  the sources: GetForParent for a service.\<close>

definition GetLogForService :: "library_Service \<Rightarrow> engine \<Rightarrow> (error + Log) \<times> engine" where
  "GetLogForService s e = GetForParent ParentService (Service_ID s) e"

text \<open>Modelled from the spec: \<^verbatim>\<open>GetLogForInit\<close>, called by the tests and missing from the
  sources: GetForParent for an init.\<close>

definition GetLogForInit :: "Init \<Rightarrow> engine \<Rightarrow> (error + Log) \<times> engine" where
  "GetLogForInit i e = GetForParent ParentInit (Init_ID i) e"

text \<open>Modelled from the spec: Count of the query engine for inits (\<^verbatim>\<open>CountInits\<close> is called
  by the tests and missing from the sources): \<^verbatim>\<open>SELECT count(*) FROM inits\<close>.\<close>

definition CountInits :: "engine \<Rightarrow> (int64 \<times> error option) \<times> engine" where
  "CountInits e = with_client (Count (Table ''inits'') 0) e"

text \<open>Modelled from the spec: List of the query engine for inits (\<^verbatim>\<open>ListInits\<close> is called
  by the tests and missing from the sources): \<^verbatim>\<open>SELECT * FROM inits\<close>, the rows decoded in
  the backend's order.\<close>

definition ListInits :: "engine \<Rightarrow> (error + Init list) \<times> engine" where
  "ListInits e =
    with_client (\<lambda>d. apfst (map_sum id (map decode_init)) (Find (Table ''inits'') d)) e"

text \<open>Modelled from the spec: Get-by-ID of the query engine for workers (missing from the
  sources): \<^verbatim>\<open>SELECT * FROM workers WHERE id = ? LIMIT 1\<close>.\<close>

definition GetWorker :: "int64 \<Rightarrow> engine \<Rightarrow> (error + Worker) \<times> engine" where
  "GetWorker wid e =
    with_client
      (\<lambda>d. apfst (map_sum id decode_worker)
         (Take (Where ''id = ?'' (VInt wid) (Table ''workers'')) d)) e"

text \<open>Modelled from the spec: List of the query engine for workers (missing from the
  sources): \<^verbatim>\<open>SELECT * FROM workers\<close>, the rows decoded in the backend's order.\<close>

definition ListWorkers :: "engine \<Rightarrow> (error + Worker list) \<times> engine" where
  "ListWorkers e =
    with_client (\<lambda>d. apfst (map_sum id (map decode_worker)) (Find (Table ''workers'') d)) e"

text \<open>The constants as \<^verbatim>\<open>go-vela/types\<close> declares them, for the concrete instances below.\<close>

definition vela_constants :: constants where
  "vela_constants =
    \<lparr>DriverGithub = ''github'', DriverGitlab = ''gitlab'',
     DriverPostgres = ''postgres'', DriverSqlite = ''sqlite3'', TableHook = ''hooks''\<rparr>"

definition example_setup :: Setup where
  "example_setup =
    \<lparr>Driver = ''github'', Address = ''https://github.com'', ClientID = ''foo'',
     ClientSecret = ''bar'', ServerAddress = '''', StatusContext = ''continuous-integration/vela'',
     WebUIAddress = ''''\<rparr>"

text \<open>An engine on a backend with no table and no statement sent yet.\<close>

definition new_engine :: engine where
  "new_engine = \<lparr>client = \<lparr>db_tables = Map.empty, db_trace = []\<rparr>\<rparr>"

text \<open>The rows of a table whose column \<open>c\<close> holds the integer \<open>i\<close>.\<close>

definition rows_where :: "string \<Rightarrow> int64 \<Rightarrow> table \<Rightarrow> row list" where
  "rows_where c i t = filter (\<lambda>row. col row c = VInt i) (tbl_rows t)"

text \<open>Concrete backends and entities for the instances below.\<close>

definition hooks_engine :: engine where
  "hooks_engine =
    \<lparr>client = \<lparr>db_tables = [''hooks'' \<mapsto>
        \<lparr>tbl_unique = [],
         tbl_rows = [[(''id'', VInt 1), (''repo_id'', VInt 1)],
                     [(''id'', VInt 2), (''repo_id'', VInt 2)],
                     [(''id'', VInt 3), (''repo_id'', VInt 1)]],
         tbl_seq = 3\<rparr>],
      db_trace = []\<rparr>\<rparr>"

definition repo_one :: Repo where
  "repo_one =
    \<lparr>Repo_ID = Some 1, Repo_Org = Some ''github'', Repo_Name = Some ''octocat'',
     Repo_FullName = Some ''github/octocat''\<rparr>"

definition log_init :: Log where
  "log_init =
    \<lparr>Log_ID = 1, Log_BuildID = 1, Log_RepoID = 1, Log_ServiceID = 0, Log_StepID = 0,
     Log_InitID = 1, Log_InitStepID = 0, Log_Data = Some []\<rparr>"

definition log_service :: Log where
  "log_service =
    \<lparr>Log_ID = 2, Log_BuildID = 1, Log_RepoID = 1, Log_ServiceID = 1, Log_StepID = 0,
     Log_InitID = 0, Log_InitStepID = 0, Log_Data = Some []\<rparr>"

definition logs_engine :: engine where
  "logs_engine =
    \<lparr>client = \<lparr>db_tables = [''logs'' \<mapsto>
        \<lparr>tbl_unique = [], tbl_rows = [encode_log log_init, encode_log log_service],
         tbl_seq = 2\<rparr>],
      db_trace = []\<rparr>\<rparr>"

text \<open>
  The two inits the tests of \<^verbatim>\<open>CountInits\<close> and \<^verbatim>\<open>ListInits\<close> create
  (database/init/count_test.go).
\<close>

definition initOne :: Init where
  "initOne =
    \<lparr>Init_ID = 1, Init_RepoID = 1, Init_BuildID = 1, Init_Number = 1,
     Init_Reporter = ''Foobar Runtime'', Init_Name = ''foobar'', Init_Mimetype = ''text/plain''\<rparr>"

definition initTwo :: Init where
  "initTwo =
    \<lparr>Init_ID = 2, Init_RepoID = 1, Init_BuildID = 2, Init_Number = 2,
     Init_Reporter = ''Foobar Runtime'', Init_Name = ''foobar'', Init_Mimetype = ''text/plain''\<rparr>"

text \<open>A table just created: no row, no identifier handed out.\<close>

definition new_table :: "string list \<Rightarrow> table" where
  "new_table us = \<lparr>tbl_unique = us, tbl_rows = [], tbl_seq = 0\<rparr>"

definition inits_engine :: engine where
  "inits_engine = \<lparr>client = \<lparr>db_tables = [''inits'' \<mapsto> new_table []], db_trace = []\<rparr>\<rparr>"

definition logs_empty_engine :: engine where
  "logs_empty_engine = \<lparr>client = \<lparr>db_tables = [''logs'' \<mapsto> new_table []], db_trace = []\<rparr>\<rparr>"

definition init_one :: Init where
  "init_one =
    \<lparr>Init_ID = 1, Init_RepoID = 1, Init_BuildID = 1, Init_Number = 1,
     Init_Reporter = [], Init_Name = [], Init_Mimetype = []\<rparr>"

definition worker_one :: Worker where
  "worker_one =
    \<lparr>Worker_ID = 1, Worker_Hostname = ''worker_0'', Worker_Address = ''localhost'',
     Worker_Routes = ''vela'', Worker_Active = True, Worker_LastCheckedIn = 0,
     Worker_BuildLimit = 1\<rparr>"

definition worker_dup :: Worker where
  "worker_dup =
    \<lparr>Worker_ID = 2, Worker_Hostname = ''worker_0'', Worker_Address = ''10.0.0.2'',
     Worker_Routes = ''large'', Worker_Active = False, Worker_LastCheckedIn = 5,
     Worker_BuildLimit = 8\<rparr>"

section \<open>Properties of source/setup.go\<close>

lemma HasPrefix_iff: "HasPrefix s pre \<longleftrightarrow> (\<exists>q. s = pre @ q)"
proof
  assume "HasPrefix s pre"
  then have "s = pre @ drop (length pre) s"
    by (metis HasPrefix_def append_take_drop_id)
  then show "\<exists>q. s = pre @ q" ..
next
  assume "\<exists>q. s = pre @ q"
  then show "HasPrefix s pre" by (auto simp: HasPrefix_def)
qed

lemma HasSuffix_iff: "HasSuffix s suf \<longleftrightarrow> (\<exists>p. s = p @ suf)"
proof
  assume "HasSuffix s suf"
  then have "s = take (length s - length suf) s @ suf"
    by (metis HasSuffix_def append_take_drop_id)
  then show "\<exists>p. s = p @ suf" ..
next
  assume "\<exists>p. s = p @ suf"
  then show "HasSuffix s suf" by (auto simp: HasSuffix_def)
qed

text \<open>\<open>Contains\<close> is the substring test: some occurrence of \<open>substr\<close> lies inside \<open>s\<close>.\<close>

lemma Contains_iff: "Contains s substr \<longleftrightarrow> (\<exists>p q. s = p @ substr @ q)"
proof (induction s)
  case Nil
  show ?case by auto
next
  case (Cons c cs)
  show ?case
  proof
    assume "Contains (c # cs) substr"
    then consider "HasPrefix (c # cs) substr" | "Contains cs substr" by auto
    then show "\<exists>p q. c # cs = p @ substr @ q"
    proof cases
      case 1
      then obtain q where "c # cs = substr @ q" using HasPrefix_iff by blast
      then have "c # cs = [] @ substr @ q" by simp
      then show ?thesis by blast
    next
      case 2
      then obtain p q where "cs = p @ substr @ q" using Cons.IH by blast
      then have "c # cs = (c # p) @ substr @ q" by simp
      then show ?thesis by blast
    qed
  next
    assume "\<exists>p q. c # cs = p @ substr @ q"
    then obtain p q where pq: "c # cs = p @ substr @ q" by blast
    show "Contains (c # cs) substr"
    proof (cases p)
      case Nil
      with pq have "HasPrefix (c # cs) substr" using HasPrefix_iff by auto
      then show ?thesis by simp
    next
      case (Cons a p')
      with pq have "cs = p' @ substr @ q" by simp
      then have "Contains cs substr" using Cons.IH by blast
      then show ?thesis by simp
    qed
  qed
qed

text \<open>
  C8. \<open>Validate\<close> returns an error exactly when the driver is empty, the driver is neither
  the github nor the gitlab constant, the address is empty, the address does not contain
  \<^verbatim>\<open>://\<close>, the address ends with a slash, or the client ID, the client secret or the
  status context is empty; in every other case it returns nil.
\<close>

theorem Validate_error_iff:
  "Validate K s \<noteq> None \<longleftrightarrow>
     (Driver s = [] \<or> (Driver s \<noteq> DriverGithub K \<and> Driver s \<noteq> DriverGitlab K)
      \<or> Address s = [] \<or> \<not> Contains (Address s) ''://'' \<or> HasSuffix (Address s) ''/''
      \<or> ClientID s = [] \<or> ClientSecret s = [] \<or> StatusContext s = [])"
  by (simp add: Validate_def)

theorem Validate_error_iff_witness:
  "Validate vela_constants example_setup = None
   \<and> Validate vela_constants (example_setup\<lparr>Address := ''https://github.com/''\<rparr>) \<noteq> None
   \<and> Validate vela_constants (example_setup\<lparr>Address := ''github.com''\<rparr>) \<noteq> None
   \<and> Validate vela_constants (example_setup\<lparr>Driver := ''bitbucket''\<rparr>) \<noteq> None"
  using Validate_error_iff [where K = vela_constants and s = example_setup]
    Validate_error_iff
      [where K = vela_constants and s = "example_setup\<lparr>Address := ''https://github.com/''\<rparr>"]
    Validate_error_iff
      [where K = vela_constants and s = "example_setup\<lparr>Address := ''github.com''\<rparr>"]
    Validate_error_iff
      [where K = vela_constants and s = "example_setup\<lparr>Driver := ''bitbucket''\<rparr>"]
  by (simp add: vela_constants_def example_setup_def HasPrefix_def HasSuffix_def)

text \<open>
  C9. \<open>Gitlab\<close> returns a nil service and the error "unsupported source driver: <gitlab
  constant>" for every setup, although \<open>Validate\<close> accepts the gitlab constant as a driver: a
  setup whose other fields pass the checks and whose driver is the (non-empty) gitlab constant
  is valid, and building its service still fails.
\<close>

theorem Gitlab_unsupported_yet_valid:
  "Gitlab K s = (None, Some (Errorf (''unsupported source driver: '' @ DriverGitlab K)))
   \<and> (DriverGitlab K \<noteq> [] \<and> Address s \<noteq> [] \<and> Contains (Address s) ''://''
        \<and> \<not> HasSuffix (Address s) ''/'' \<and> ClientID s \<noteq> [] \<and> ClientSecret s \<noteq> []
        \<and> StatusContext s \<noteq> []
      \<longrightarrow> Validate K (s\<lparr>Driver := DriverGitlab K\<rparr>) = None
          \<and> fst (Gitlab K (s\<lparr>Driver := DriverGitlab K\<rparr>)) = None
          \<and> snd (Gitlab K (s\<lparr>Driver := DriverGitlab K\<rparr>)) \<noteq> None)"
  by (simp add: Gitlab_def Validate_def)

theorem Gitlab_unsupported_yet_valid_witness:
  "Validate vela_constants (example_setup\<lparr>Driver := DriverGitlab vela_constants\<rparr>) = None
   \<and> Gitlab vela_constants (example_setup\<lparr>Driver := DriverGitlab vela_constants\<rparr>)
       = (None, Some (Errorf ''unsupported source driver: gitlab''))"
  using Gitlab_unsupported_yet_valid [where K = vela_constants and s = example_setup]
    Gitlab_unsupported_yet_valid
      [where K = vela_constants
         and s = "example_setup\<lparr>Driver := DriverGitlab vela_constants\<rparr>"]
  by (simp add: vela_constants_def example_setup_def HasPrefix_def HasSuffix_def)

text \<open>
  C10. \<open>Validate\<close> does not read \<open>ServerAddress\<close> or \<open>WebUIAddress\<close>: its result is the same
  whatever the two fields hold, and a setup whose driver, address, client ID, client secret and
  status context pass the checks is valid also when both fields are empty strings.
\<close>

theorem Validate_ignores_ServerAddress_WebUIAddress:
  "Validate K (s\<lparr>ServerAddress := a, WebUIAddress := b\<rparr>) = Validate K s
   \<and> (Driver s \<noteq> [] \<and> (Driver s = DriverGithub K \<or> Driver s = DriverGitlab K)
        \<and> Address s \<noteq> [] \<and> Contains (Address s) ''://'' \<and> \<not> HasSuffix (Address s) ''/''
        \<and> ClientID s \<noteq> [] \<and> ClientSecret s \<noteq> [] \<and> StatusContext s \<noteq> []
      \<longrightarrow> Validate K (s\<lparr>ServerAddress := '''', WebUIAddress := ''''\<rparr>) = None)"
  by (simp add: Validate_def)

theorem Validate_ignores_ServerAddress_WebUIAddress_witness:
  "Validate vela_constants (example_setup\<lparr>ServerAddress := '''', WebUIAddress := ''''\<rparr>) = None
   \<and> Validate vela_constants
         (example_setup\<lparr>ServerAddress := ''http://localhost:8080'', WebUIAddress := ''x''\<rparr>)
       = Validate vela_constants example_setup"
  using Validate_ignores_ServerAddress_WebUIAddress
      [where K = vela_constants and s = example_setup
         and a = "''http://localhost:8080''" and b = "''x''"]
  by (simp add: vela_constants_def example_setup_def HasPrefix_def HasSuffix_def)

section \<open>Properties of database/worker/table.go\<close>

lemma parse_CreatePostgresTable:
  "\<exists>body. parse_create (tokens [] CreatePostgresTable) = Some (True, ''workers'', body)
        \<and> unique_columns body = [''hostname'']"
  by (simp add: CreatePostgresTable_def unlines_def is_space_def is_punct_def flush_def
      parse_create_def)

lemma parse_CreateSqliteTable:
  "\<exists>body. parse_create (tokens [] CreateSqliteTable) = Some (True, ''workers'', body)
        \<and> unique_columns body = [''hostname'']"
  by (simp add: CreateSqliteTable_def unlines_def is_space_def is_punct_def flush_def
      parse_create_def)

lemma DDL_distinct: "CreatePostgresTable \<noteq> CreateSqliteTable"
  by (simp add: CreatePostgresTable_def CreateSqliteTable_def unlines_def)

lemma Exec_guarded:
  assumes "parse_create (tokens [] sql) = Some (True, name, body)"
  shows "Exec sql d =
    (None, if db_tables d name = None
           then (log_stmt sql [] d)\<lparr>db_tables := (db_tables d)(name \<mapsto>
                  \<lparr>tbl_unique = unique_columns body, tbl_rows = [], tbl_seq = 0\<rparr>)\<rparr>
           else log_stmt sql [] d)"
  using assms by (auto simp: Exec_def Let_def split: option.splits)

lemma Exec_unguarded_twice:
  assumes "parse_create (tokens [] sql) = Some (False, name, body)"
  shows "fst (Exec sql (snd (Exec sql d))) = Some (ErrTableExists name)"
  using assms by (auto simp: Exec_def Let_def log_stmt_def split: option.splits)

lemma Exec_CreatePostgresTable:
  "Exec CreatePostgresTable d =
    (None, if db_tables d ''workers'' = None
           then (log_stmt CreatePostgresTable [] d)\<lparr>db_tables := (db_tables d)(''workers'' \<mapsto>
                  \<lparr>tbl_unique = [''hostname''], tbl_rows = [], tbl_seq = 0\<rparr>)\<rparr>
           else log_stmt CreatePostgresTable [] d)"
  using parse_CreatePostgresTable Exec_guarded by fastforce

lemma Exec_CreateSqliteTable:
  "Exec CreateSqliteTable d =
    (None, if db_tables d ''workers'' = None
           then (log_stmt CreateSqliteTable [] d)\<lparr>db_tables := (db_tables d)(''workers'' \<mapsto>
                  \<lparr>tbl_unique = [''hostname''], tbl_rows = [], tbl_seq = 0\<rparr>)\<rparr>
           else log_stmt CreateSqliteTable [] d)"
  using parse_CreateSqliteTable Exec_guarded by fastforce

lemma client_with_client: "client (snd (with_client f e)) = snd (f (client e))"
  by (simp add: with_client_def split: prod.splits)

lemma fst_with_client: "fst (with_client f e) = fst (f (client e))"
  by (simp add: with_client_def split: prod.splits)

text \<open>
  C2. \<open>CreateWorkerTable\<close> executes the Postgres statement when the driver is the Postgres
  driver name, and the Sqlite statement for every other driver string, the Sqlite driver
  name and unrecognized names alike; whatever the driver, it returns no error.
\<close>

theorem CreateWorkerTable_dispatch:
  "(driver = DriverPostgres K \<longrightarrow>
      CreateWorkerTable K e driver = with_client (Exec CreatePostgresTable) e
      \<and> db_trace (client (snd (CreateWorkerTable K e driver)))
          = db_trace (client e) @ [(CreatePostgresTable, [])])
   \<and> (driver \<noteq> DriverPostgres K \<longrightarrow>
      CreateWorkerTable K e driver = with_client (Exec CreateSqliteTable) e
      \<and> db_trace (client (snd (CreateWorkerTable K e driver)))
          = db_trace (client e) @ [(CreateSqliteTable, [])])
   \<and> fst (CreateWorkerTable K e driver) = None"
  by (simp add: CreateWorkerTable_def client_with_client fst_with_client
      Exec_CreatePostgresTable Exec_CreateSqliteTable log_stmt_def)

theorem CreateWorkerTable_dispatch_witness:
  "db_trace (client (snd (CreateWorkerTable vela_constants new_engine ''postgres'')))
     = [(CreatePostgresTable, [])]
   \<and> db_trace (client (snd (CreateWorkerTable vela_constants new_engine ''sqlite3'')))
     = [(CreateSqliteTable, [])]
   \<and> db_trace (client (snd (CreateWorkerTable vela_constants new_engine ''mysql'')))
     = [(CreateSqliteTable, [])]
   \<and> fst (CreateWorkerTable vela_constants new_engine ''mysql'') = None"
  using CreateWorkerTable_dispatch [where K = vela_constants and e = new_engine and driver = "''postgres''"]
    CreateWorkerTable_dispatch [where K = vela_constants and e = new_engine and driver = "''sqlite3''"]
    CreateWorkerTable_dispatch [where K = vela_constants and e = new_engine and driver = "''mysql''"]
  by (clarsimp simp add: vela_constants_def) (simp add: new_engine_def)

text \<open>
  C3. \<open>CreateWorkerTable\<close> is idempotent: a first invocation returns no error, a second one
  on the resulting backend (with the same or another driver) returns no error and leaves the
  tables as they are, and both statements carry the guard \<^verbatim>\<open>CREATE TABLE IF NOT EXISTS\<close>.
\<close>

theorem CreateWorkerTable_idempotent:
  "fst (CreateWorkerTable K e driver) = None
   \<and> fst (CreateWorkerTable K (snd (CreateWorkerTable K e driver)) driver') = None
   \<and> db_tables (client (snd (CreateWorkerTable K (snd (CreateWorkerTable K e driver)) driver')))
       = db_tables (client (snd (CreateWorkerTable K e driver)))
   \<and> (\<exists>body. parse_create (tokens [] CreatePostgresTable) = Some (True, ''workers'', body))
   \<and> (\<exists>body. parse_create (tokens [] CreateSqliteTable) = Some (True, ''workers'', body))"
proof -
  have "db_tables (snd (Exec CreatePostgresTable d)) ''workers'' \<noteq> None"
    and "db_tables (snd (Exec CreateSqliteTable d)) ''workers'' \<noteq> None" for d
    by (simp_all add: Exec_CreatePostgresTable Exec_CreateSqliteTable log_stmt_def)
  then have "db_tables (client (snd (CreateWorkerTable K e driver))) ''workers'' \<noteq> None"
    by (simp add: CreateWorkerTable_def client_with_client)
  then have "db_tables (client (snd (CreateWorkerTable K (snd (CreateWorkerTable K e driver)) driver')))
       = db_tables (client (snd (CreateWorkerTable K e driver)))"
    by (auto simp add: CreateWorkerTable_def [of K _ driver'] client_with_client
        Exec_CreatePostgresTable Exec_CreateSqliteTable log_stmt_def)
  moreover have "fst (CreateWorkerTable K e'' d'') = None" for e'' d''
    by (simp add: CreateWorkerTable_def fst_with_client
        Exec_CreatePostgresTable Exec_CreateSqliteTable)
  ultimately show ?thesis
    using parse_CreatePostgresTable parse_CreateSqliteTable by blast
qed

theorem CreateWorkerTable_idempotent_witness:
  "fst (CreateWorkerTable vela_constants new_engine ''postgres'') = None
   \<and> fst (CreateWorkerTable vela_constants
           (snd (CreateWorkerTable vela_constants new_engine ''postgres'')) ''postgres'') = None
   \<and> fst (CreateWorkerTable vela_constants
           (snd (CreateWorkerTable vela_constants new_engine ''sqlite3'')) ''sqlite3'') = None"
  using CreateWorkerTable_idempotent
      [where K = vela_constants and e = new_engine and driver = "''postgres''"
         and driver' = "''postgres''"]
    CreateWorkerTable_idempotent
      [where K = vela_constants and e = new_engine and driver = "''sqlite3''"
         and driver' = "''sqlite3''"]
  by simp

section \<open>Properties of the queries\<close>

lemma where_column_eq [simp]: "c \<noteq> [] \<Longrightarrow> where_column (c @ '' = ?'') = Some c"
  by (simp add: where_column_def HasSuffix_def)

lemma matches_single [simp]: "matches [(c, VInt i)] = (\<lambda>r. col r c = VInt i)"
  by (auto simp: matches_def sql_eq_def)

lemma select_rows_single:
  "c \<noteq> [] \<Longrightarrow> select_rows (Where (c @ '' = ?'') (VInt i) (Table name)) sql d =
    (case db_tables d name of
       None \<Rightarrow> Inl (ErrNoSuchTable name)
     | Some t \<Rightarrow> Inr (filter (\<lambda>r. col r c = VInt i) (tbl_rows t)))"
  by (simp add: select_rows_def Where_def Table_def split: option.splits)

lemma select_sql_single:
  \<open>select_sql what (Where cond arg (Table name)) rest =
     ''SELECT '' @ what @ '' FROM "'' @ name @ ''" WHERE '' @ cond @ rest\<close>
  by (simp add: select_sql_def Where_def Table_def)

lemma st_where_single [simp]: "st_where (Where cond arg (Table name)) = [(cond, arg)]"
  by (simp add: Where_def Table_def)

lemma snd_Count:
  "snd (Count st h d) = log_stmt (select_sql ''count(*)'' st []) (map snd (st_where st)) d"
  by (simp add: Count_def Let_def split: sum.splits)

lemma snd_Take:
  "snd (Take st d) = log_stmt (select_sql ''*'' st '' LIMIT 1'') (map snd (st_where st)) d"
  by (simp add: Take_def Let_def split: sum.splits list.splits)

text \<open>
  C7. \<open>CountHooksForRepo\<close> returns the number of rows of the hooks table whose
  \<^verbatim>\<open>repo_id\<close> equals the repo's id (as an \<^verbatim>\<open>int64\<close>, exact below \<open>2^63\<close> rows), by the query
  \<^verbatim>\<open>SELECT count(*) FROM "<hooks>" WHERE repo_id = ?\<close> with that id; the error it returns is
  the error of the query, unchanged, and the count is zero then.
\<close>

theorem CountHooksForRepo_counts:
  \<open>fst (CountHooksForRepo K e r) =
     (case db_tables (client e) (TableHook K) of
        None \<Rightarrow> (0, Some (ErrNoSuchTable (TableHook K)))
      | Some t \<Rightarrow> (word_of_nat (length (rows_where ''repo_id'' (GetID r) t)), None))
   \<and> (\<forall>t. db_tables (client e) (TableHook K) = Some t
          \<and> length (rows_where ''repo_id'' (GetID r) t) < 2 ^ 63
        \<longrightarrow> sint (fst (fst (CountHooksForRepo K e r))) = int (length (rows_where ''repo_id'' (GetID r) t)))
   \<and> snd (fst (CountHooksForRepo K e r))
       = snd (fst (Count (Where ''repo_id = ?'' (VInt (GetID r)) (Table (TableHook K))) 0
                    (client e)))
   \<and> db_trace (client (snd (CountHooksForRepo K e r)))
       = db_trace (client e)
         @ [(''SELECT count(*) FROM "'' @ TableHook K @ ''" WHERE repo_id = ?'',
             [VInt (GetID r)])]\<close>
proof -
  have sel: "select_rows (Where ''repo_id = ?'' (VInt (GetID r)) (Table (TableHook K))) sql (client e) =
    (case db_tables (client e) (TableHook K) of
       None \<Rightarrow> Inl (ErrNoSuchTable (TableHook K))
     | Some t \<Rightarrow> Inr (rows_where ''repo_id'' (GetID r) t))" for sql
    using select_rows_single [of "''repo_id''"] by (simp add: rows_where_def split: option.splits)
  have 1: "fst (CountHooksForRepo K e r) =
     (case db_tables (client e) (TableHook K) of
        None \<Rightarrow> (0, Some (ErrNoSuchTable (TableHook K)))
      | Some t \<Rightarrow> (word_of_nat (length (rows_where ''repo_id'' (GetID r) t)), None))"
    by (simp add: CountHooksForRepo_def fst_with_client Count_def Let_def sel
        split: option.splits)
  have 2: "sint (fst (fst (CountHooksForRepo K e r))) = int (length (rows_where ''repo_id'' (GetID r) t))"
    if "db_tables (client e) (TableHook K) = Some t"
      and "length (rows_where ''repo_id'' (GetID r) t) < 2 ^ 63" for t
  proof -
    have "fst (fst (CountHooksForRepo K e r)) = (word_of_nat (length (rows_where ''repo_id'' (GetID r) t)) :: int64)"
      using 1 that(1) by simp
    moreover have "sint (word_of_nat n :: int64) = int n" if "n < 2 ^ 63" for n
    proof -
      have "signed_take_bit 63 (int n) = int n"
        using that by (intro signed_take_bit_int_eq_self) simp_all
      then show ?thesis by (simp add: signed_of_nat)
    qed
    ultimately show ?thesis using that(2) by simp
  qed
  have 3: "snd (fst (CountHooksForRepo K e r))
       = snd (fst (Count (Where ''repo_id = ?'' (VInt (GetID r)) (Table (TableHook K))) 0
                    (client e)))"
    by (simp add: CountHooksForRepo_def fst_with_client)
  have 4: \<open>db_trace (client (snd (CountHooksForRepo K e r)))
       = db_trace (client e)
         @ [(''SELECT count(*) FROM "'' @ TableHook K @ ''" WHERE repo_id = ?'',
             [VInt (GetID r)])]\<close>
    by (simp add: CountHooksForRepo_def client_with_client snd_Count select_sql_single
        log_stmt_def)
  show ?thesis using 1 2 3 4 by blast
qed

theorem CountHooksForRepo_counts_witness:
  "fst (CountHooksForRepo vela_constants hooks_engine repo_one) = (2, None)
   \<and> sint (fst (fst (CountHooksForRepo vela_constants hooks_engine repo_one))) = 2
   \<and> fst (CountHooksForRepo vela_constants new_engine repo_one)
       = (0, Some (ErrNoSuchTable ''hooks''))"
  using CountHooksForRepo_counts [where K = vela_constants and e = hooks_engine and r = repo_one]
    CountHooksForRepo_counts [where K = vela_constants and e = new_engine and r = repo_one]
  by (simp add: vela_constants_def hooks_engine_def new_engine_def repo_one_def GetID_def
      rows_where_def col_def)

lemma fst_Take_single:
  "c \<noteq> [] \<Longrightarrow> fst (Take (Where (c @ '' = ?'') (VInt i) (Table name)) d) =
    (case db_tables d name of
       None \<Rightarrow> Inl (ErrNoSuchTable name)
     | Some t \<Rightarrow>
         (case rows_where c i t of [] \<Rightarrow> Inl ErrRecordNotFound | r # rs \<Rightarrow> Inr r))"
  by (simp add: Take_def Let_def select_rows_single rows_where_def
      split: option.splits list.splits)

lemma parent_column_nonempty: "parent_column k \<noteq> []"
  by (cases k) simp_all

lemma fst_GetForParent:
  "fst (GetForParent k parent e) =
    (case db_tables (client e) ''logs'' of
       None \<Rightarrow> Inl (ErrNoSuchTable ''logs'')
     | Some t \<Rightarrow>
         (case rows_where (parent_column k) parent t of
            [] \<Rightarrow> Inl ErrRecordNotFound
          | r # rs \<Rightarrow> Inr (decode_log r)))"
  by (simp add: GetForParent_def fst_with_client fst_Take_single parent_column_nonempty
      split: option.splits list.splits)

lemma trace_GetForParent:
  \<open>db_trace (client (snd (GetForParent k parent e))) =
     db_trace (client e)
     @ [(''SELECT * FROM "logs" WHERE '' @ parent_column k @ '' = ? LIMIT 1'', [VInt parent])]\<close>
  by (simp add: GetForParent_def client_with_client snd_Take select_sql_single log_stmt_def)

lemma rows_where_hd:
  assumes "rows_where c i t = r # rs"
  shows "r \<in> set (tbl_rows t) \<and> col r c = VInt i"
proof -
  have "r \<in> set (rows_where c i t)" using assms by simp
  then show ?thesis by (simp add: rows_where_def)
qed

lemma GetForParent_Inr:
  assumes "fst (GetForParent k parent e) = Inr l"
  shows "\<exists>t r. db_tables (client e) ''logs'' = Some t \<and> r \<in> set (tbl_rows t)
           \<and> col r (parent_column k) = VInt parent \<and> l = decode_log r"
proof -
  from assms obtain t where t: "db_tables (client e) ''logs'' = Some t"
    by (auto simp: fst_GetForParent split: option.splits)
  with assms obtain r rs where r: "rows_where (parent_column k) parent t = r # rs"
    and l: "l = decode_log r"
    by (auto simp: fst_GetForParent split: list.splits)
  from rows_where_hd [OF r] t l show ?thesis by blast
qed

text \<open>
  C1. \<open>GetLogForService\<close> sends \<^verbatim>\<open>SELECT * FROM "logs" WHERE service_id = ? LIMIT 1\<close> with
  the service's id and returns the first log row whose \<^verbatim>\<open>service_id\<close> is that id;
  \<open>GetLogForInit\<close> does the same with \<^verbatim>\<open>init_id\<close> and the init's id. The other columns of
  a row take no part in the match: a returned log always carries the parent's id in the
  column of the parent's kind, and without such a row the result is not-found.
\<close>

theorem GetForParent_selects_by_parent_column:
  \<open>fst (GetLogForService s e) =
     (case db_tables (client e) ''logs'' of
        None \<Rightarrow> Inl (ErrNoSuchTable ''logs'')
      | Some t \<Rightarrow>
          (case rows_where ''service_id'' (Service_ID s) t of
             [] \<Rightarrow> Inl ErrRecordNotFound
           | r # rs \<Rightarrow> Inr (decode_log r)))
   \<and> fst (GetLogForInit i e) =
     (case db_tables (client e) ''logs'' of
        None \<Rightarrow> Inl (ErrNoSuchTable ''logs'')
      | Some t \<Rightarrow>
          (case rows_where ''init_id'' (Init_ID i) t of
             [] \<Rightarrow> Inl ErrRecordNotFound
           | r # rs \<Rightarrow> Inr (decode_log r)))
   \<and> db_trace (client (snd (GetLogForService s e))) =
       db_trace (client e)
       @ [(''SELECT * FROM "logs" WHERE service_id = ? LIMIT 1'', [VInt (Service_ID s)])]
   \<and> db_trace (client (snd (GetLogForInit i e))) =
       db_trace (client e)
       @ [(''SELECT * FROM "logs" WHERE init_id = ? LIMIT 1'', [VInt (Init_ID i)])]
   \<and> (\<forall>l. fst (GetLogForService s e) = Inr l \<longrightarrow> Log_ServiceID l = Service_ID s)
   \<and> (\<forall>l. fst (GetLogForInit i e) = Inr l \<longrightarrow> Log_InitID l = Init_ID i)\<close>
proof -
  have 1: "Log_ServiceID l = Service_ID s" if "fst (GetLogForService s e) = Inr l" for l
    using GetForParent_Inr [of ParentService "Service_ID s" e l] that
    by (auto simp: GetLogForService_def decode_log_def)
  have 2: "Log_InitID l = Init_ID i" if "fst (GetLogForInit i e) = Inr l" for l
    using GetForParent_Inr [of ParentInit "Init_ID i" e l] that
    by (auto simp: GetLogForInit_def decode_log_def)
  have 3: "fst (GetLogForService s e) =
     (case db_tables (client e) ''logs'' of
        None \<Rightarrow> Inl (ErrNoSuchTable ''logs'')
      | Some t \<Rightarrow>
          (case rows_where ''service_id'' (Service_ID s) t of
             [] \<Rightarrow> Inl ErrRecordNotFound
           | r # rs \<Rightarrow> Inr (decode_log r)))"
    unfolding GetLogForService_def fst_GetForParent parent_column.simps by (rule refl)
  have 4: "fst (GetLogForInit i e) =
     (case db_tables (client e) ''logs'' of
        None \<Rightarrow> Inl (ErrNoSuchTable ''logs'')
      | Some t \<Rightarrow>
          (case rows_where ''init_id'' (Init_ID i) t of
             [] \<Rightarrow> Inl ErrRecordNotFound
           | r # rs \<Rightarrow> Inr (decode_log r)))"
    unfolding GetLogForInit_def fst_GetForParent parent_column.simps by (rule refl)
  have 5: \<open>db_trace (client (snd (GetLogForService s e))) =
       db_trace (client e)
       @ [(''SELECT * FROM "logs" WHERE service_id = ? LIMIT 1'', [VInt (Service_ID s)])]\<close>
    by (simp add: GetLogForService_def trace_GetForParent)
  have 6: \<open>db_trace (client (snd (GetLogForInit i e))) =
       db_trace (client e)
       @ [(''SELECT * FROM "logs" WHERE init_id = ? LIMIT 1'', [VInt (Init_ID i)])]\<close>
    by (simp add: GetLogForInit_def trace_GetForParent)
  from 1 2 3 4 5 6 show ?thesis by blast
qed

theorem GetForParent_selects_by_parent_column_witness:
  "fst (GetLogForService \<lparr>Service_ID = 1, Service_RepoID = 1, Service_BuildID = 1,
          Service_Number = 1\<rparr> logs_engine) = Inr log_service
   \<and> fst (GetLogForInit \<lparr>Init_ID = 1, Init_RepoID = 1, Init_BuildID = 1, Init_Number = 1,
          Init_Reporter = [], Init_Name = [], Init_Mimetype = []\<rparr> logs_engine) = Inr log_init
   \<and> fst (GetLogForService \<lparr>Service_ID = 2, Service_RepoID = 1, Service_BuildID = 1,
          Service_Number = 1\<rparr> logs_engine) = Inl ErrRecordNotFound"
  using GetForParent_selects_by_parent_column
      [where e = logs_engine
         and s = "\<lparr>Service_ID = 1, Service_RepoID = 1, Service_BuildID = 1, Service_Number = 1\<rparr>"
         and i = "\<lparr>Init_ID = 1, Init_RepoID = 1, Init_BuildID = 1, Init_Number = 1,
          Init_Reporter = [], Init_Name = [], Init_Mimetype = []\<rparr>"]
    GetForParent_selects_by_parent_column
      [where e = logs_engine
         and s = "\<lparr>Service_ID = 2, Service_RepoID = 1, Service_BuildID = 1, Service_Number = 1\<rparr>"]
  by (simp add: logs_engine_def log_service_def log_init_def rows_where_def col_def
      encode_log_def decode_log_def blob_def)

section \<open>Properties of the entities\<close>

lemma decode_encode_init: "decode_init (encode_init i) = i"
  by (simp add: decode_init_def encode_init_def col_def)

lemma decode_encode_log: "decode_log (encode_log l) = l"
  by (cases "Log_Data l") (simp_all add: decode_log_def encode_log_def col_def blob_def)

lemma decode_encode_worker: "decode_worker (encode_worker w) = w"
  by (simp add: decode_worker_def encode_worker_def col_def)

lemma set_id_encode_init:
  "set_col ''id'' (VInt n) (encode_init i) = encode_init (i\<lparr>Init_ID := n\<rparr>)"
  by (simp add: encode_init_def)

lemma set_id_encode_log:
  "set_col ''id'' (VInt n) (encode_log l) = encode_log (l\<lparr>Log_ID := n\<rparr>)"
  by (simp add: encode_log_def)

lemma set_id_encode_worker:
  "set_col ''id'' (VInt n) (encode_worker w) = encode_worker (w\<lparr>Worker_ID := n\<rparr>)"
  by (simp add: encode_worker_def)

lemma Create_Some:
  assumes "db_tables d name = Some t"
  shows "Create name r d =
    (case violated t (set_col ''id'' (VInt (tbl_seq t + 1)) r) of
       Some u \<Rightarrow> (Inl (ErrUniqueViolation name u), log_stmt (insert_sql name r) (map snd r) d)
     | None \<Rightarrow>
         (Inr (set_col ''id'' (VInt (tbl_seq t + 1)) r),
          (log_stmt (insert_sql name r) (map snd r) d)\<lparr>db_tables := (db_tables d)(name \<mapsto>
             t\<lparr>tbl_rows := tbl_rows t @ [set_col ''id'' (VInt (tbl_seq t + 1)) r],
               tbl_seq := tbl_seq t + 1\<rparr>)\<rparr>))"
  using assms by (simp add: Create_def Let_def)

lemma violated_no_unique [simp]: "tbl_unique t = [] \<Longrightarrow> violated t r = None"
  by (simp add: violated_def)

lemma CreateInit_no_unique:
  assumes "db_tables (client e) ''inits'' = Some t" and "tbl_unique t = []"
  shows "fst (CreateInit i e) = Inr (i\<lparr>Init_ID := tbl_seq t + 1\<rparr>)"
    and "db_tables (client (snd (CreateInit i e))) =
      (db_tables (client e))(''inits'' \<mapsto>
         t\<lparr>tbl_rows := tbl_rows t @ [encode_init (i\<lparr>Init_ID := tbl_seq t + 1\<rparr>)],
           tbl_seq := tbl_seq t + 1\<rparr>)"
  using assms
  by (simp_all add: CreateInit_def fst_with_client client_with_client Create_Some
      set_id_encode_init decode_encode_init log_stmt_def)

lemma select_rows_all:
  "select_rows (Table name) sql d =
    (case db_tables d name of
       None \<Rightarrow> Inl (ErrNoSuchTable name)
     | Some t \<Rightarrow> Inr (tbl_rows t))"
  by (simp add: select_rows_def Table_def matches_def split: option.splits)

lemma fst_CountInits:
  "db_tables (client e) ''inits'' = Some t \<Longrightarrow>
     fst (CountInits e) = (word_of_nat (length (tbl_rows t)), None)"
  by (simp add: CountInits_def fst_with_client Count_def Let_def select_rows_all)

lemma fst_ListInits:
  "db_tables (client e) ''inits'' = Some t \<Longrightarrow>
     fst (ListInits e) = Inr (map decode_init (tbl_rows t))"
  by (simp add: ListInits_def fst_with_client Find_def Let_def select_rows_all)

text \<open>
  C5. On a backend whose inits table is new, creating the first init of the tests (id 1,
  repo 1, build 1, number 1, reporter "Foobar Runtime", name "foobar", mimetype
  "text/plain") and then the second one (id 2, repo 1, build 2, number 2, the same reporter,
  name and mimetype) succeeds both times; \<open>CountInits\<close> then returns 2 and \<open>ListInits\<close>
  returns the two inits in that order, every field as it was passed to Create.
\<close>

theorem Inits_scenario:
  assumes "db_tables (client e) ''inits'' = Some (new_table [])"
  shows "fst (CreateInit initOne e) = Inr initOne
    \<and> fst (CreateInit initTwo (snd (CreateInit initOne e))) = Inr initTwo
    \<and> fst (CountInits (snd (CreateInit initTwo (snd (CreateInit initOne e))))) = (2, None)
    \<and> fst (ListInits (snd (CreateInit initTwo (snd (CreateInit initOne e)))))
        = Inr [initOne, initTwo]"
proof -
  let ?e1 = "snd (CreateInit initOne e)"
  let ?e2 = "snd (CreateInit initTwo ?e1)"
  let ?t1 = "\<lparr>tbl_unique = [], tbl_rows = [encode_init initOne], tbl_seq = 1\<rparr>"
  let ?t2 = "\<lparr>tbl_unique = [], tbl_rows = [encode_init initOne, encode_init initTwo],
              tbl_seq = 2\<rparr>"
  have one: "initOne\<lparr>Init_ID := 0 + 1\<rparr> = initOne" by (simp add: initOne_def)
  have two: "initTwo\<lparr>Init_ID := 1 + 1\<rparr> = initTwo" by (simp add: initTwo_def)
  have r1: "fst (CreateInit initOne e) = Inr initOne"
    using CreateInit_no_unique(1) [OF assms, of initOne] one by (simp add: new_table_def)
  have t1: "db_tables (client ?e1) ''inits'' = Some ?t1"
    using CreateInit_no_unique(2) [OF assms, of initOne] one by (simp add: new_table_def)
  have r2: "fst (CreateInit initTwo ?e1) = Inr initTwo"
    using CreateInit_no_unique(1) [OF t1, of initTwo] two by simp
  have t2: "db_tables (client ?e2) ''inits'' = Some ?t2"
    using CreateInit_no_unique(2) [OF t1, of initTwo] two by simp
  have c: "fst (CountInits ?e2) = (2, None)"
    using fst_CountInits [OF t2] by simp
  have l: "fst (ListInits ?e2) = Inr [initOne, initTwo]"
    using fst_ListInits [OF t2] by (simp add: decode_encode_init)
  from r1 r2 c l show ?thesis by blast
qed

theorem Inits_scenario_witness:
  "db_tables (client inits_engine) ''inits'' = Some (new_table [])
   \<and> fst (CountInits (snd (CreateInit initTwo (snd (CreateInit initOne inits_engine)))))
       = (2, None)
   \<and> fst (ListInits (snd (CreateInit initTwo (snd (CreateInit initOne inits_engine)))))
       = Inr [initOne, initTwo]"
proof -
  have h: "db_tables (client inits_engine) ''inits'' = Some (new_table [])"
    by (simp add: inits_engine_def)
  show ?thesis using h Inits_scenario [OF h] by simp
qed

lemma CreateLog_no_unique:
  assumes "db_tables (client e) ''logs'' = Some t" and "tbl_unique t = []"
  shows "fst (CreateLog l e) = Inr (l\<lparr>Log_ID := tbl_seq t + 1\<rparr>)"
    and "db_tables (client (snd (CreateLog l e))) =
      (db_tables (client e))(''logs'' \<mapsto>
         t\<lparr>tbl_rows := tbl_rows t @ [encode_log (l\<lparr>Log_ID := tbl_seq t + 1\<rparr>)],
           tbl_seq := tbl_seq t + 1\<rparr>)"
  using assms
  by (simp_all add: CreateLog_def fst_with_client client_with_client Create_Some
      set_id_encode_log decode_encode_log log_stmt_def)

text \<open>
  C6. On a backend whose logs table is new, a log created with repo 1, build 1, init 1 and
  the empty byte sequence as data is returned by \<open>GetLogForInit\<close> on the init with id 1,
  and its data is the empty byte sequence, neither null nor an error; the codec returns
  every log, with any data, as it was encoded.
\<close>

theorem Log_empty_data_scenario:
  assumes "db_tables (client e) ''logs'' = Some (new_table [])"
    and "Log_RepoID l = 1" and "Log_BuildID l = 1" and "Log_InitID l = 1"
    and "Log_Data l = Some []" and "Init_ID i = 1"
  shows "fst (CreateLog l e) = Inr (l\<lparr>Log_ID := 1\<rparr>)
    \<and> fst (GetLogForInit i (snd (CreateLog l e))) = Inr (l\<lparr>Log_ID := 1\<rparr>)
    \<and> (\<forall>l'. fst (GetLogForInit i (snd (CreateLog l e))) = Inr l' \<longrightarrow> Log_Data l' = Some [])
    \<and> col (encode_log l) ''data'' = VBlob []
    \<and> (\<forall>x. decode_log (encode_log x) = x)"
proof -
  let ?l1 = "l\<lparr>Log_ID := 1\<rparr>"
  let ?e1 = "snd (CreateLog l e)"
  let ?t1 = "\<lparr>tbl_unique = [], tbl_rows = [encode_log ?l1], tbl_seq = 1\<rparr>"
  have r1: "fst (CreateLog l e) = Inr ?l1"
    using CreateLog_no_unique(1) [OF assms(1), of l] by (simp add: new_table_def)
  have t1: "db_tables (client ?e1) ''logs'' = Some ?t1"
    using CreateLog_no_unique(2) [OF assms(1), of l] by (simp add: new_table_def)
  have "col (encode_log ?l1) ''init_id'' = VInt 1"
    using assms(4) by (simp add: encode_log_def col_def)
  then have rows: "rows_where ''init_id'' 1 ?t1 = [encode_log ?l1]"
    by (simp add: rows_where_def)
  have g: "fst (GetLogForInit i ?e1) = Inr ?l1"
    unfolding GetLogForInit_def fst_GetForParent parent_column.simps t1 assms(6)
    by (simp add: rows decode_encode_log)
  have d: "Log_Data l' = Some []" if "fst (GetLogForInit i ?e1) = Inr l'" for l'
    using that g assms(5) by auto
  have b: "col (encode_log l) ''data'' = VBlob []"
    using assms(5) by (simp add: encode_log_def col_def blob_def)
  from r1 g d b decode_encode_log show ?thesis by blast
qed

theorem Log_empty_data_scenario_witness:
  "fst (GetLogForInit init_one (snd (CreateLog log_init logs_empty_engine))) = Inr log_init
   \<and> Log_Data log_init = Some []"
proof -
  have h: "db_tables (client logs_empty_engine) ''logs'' = Some (new_table [])"
    by (simp add: logs_empty_engine_def)
  have l: "log_init\<lparr>Log_ID := 1\<rparr> = log_init" by (simp add: log_init_def)
  show ?thesis
    using Log_empty_data_scenario [OF h, of log_init init_one] l
    by (simp add: log_init_def init_one_def)
qed

lemma CreateWorkerTable_fresh:
  assumes "db_tables (client e) ''workers'' = None"
  shows "db_tables (client (snd (CreateWorkerTable K e driver))) ''workers''
    = Some (new_table [''hostname''])"
  using assms
  by (simp add: CreateWorkerTable_def client_with_client Exec_CreatePostgresTable
      Exec_CreateSqliteTable log_stmt_def new_table_def)

lemma col_hostname [simp]: "col (encode_worker w) ''hostname'' = VText (Worker_Hostname w)"
  by (simp add: encode_worker_def col_def)

lemma col_worker_id [simp]: "col (encode_worker w) ''id'' = VInt (Worker_ID w)"
  by (simp add: encode_worker_def col_def)

lemma CreateWorker_Some:
  assumes "db_tables (client e) ''workers'' = Some t"
  shows "fst (CreateWorker w e) =
      (case violated t (encode_worker (w\<lparr>Worker_ID := tbl_seq t + 1\<rparr>)) of
         Some u \<Rightarrow> Inl (ErrUniqueViolation ''workers'' u)
       | None \<Rightarrow> Inr (w\<lparr>Worker_ID := tbl_seq t + 1\<rparr>))"
    and "db_tables (client (snd (CreateWorker w e))) =
      (case violated t (encode_worker (w\<lparr>Worker_ID := tbl_seq t + 1\<rparr>)) of
         Some u \<Rightarrow> db_tables (client e)
       | None \<Rightarrow> (db_tables (client e))(''workers'' \<mapsto>
           t\<lparr>tbl_rows := tbl_rows t @ [encode_worker (w\<lparr>Worker_ID := tbl_seq t + 1\<rparr>)],
             tbl_seq := tbl_seq t + 1\<rparr>))"
  using assms
  by (simp_all add: CreateWorker_def fst_with_client client_with_client Create_Some
      set_id_encode_worker decode_encode_worker log_stmt_def split: option.splits)

text \<open>
  Whatever the workers table holds, once a worker is created a second worker with its
  hostname is refused and nothing changes, provided the table declares hostname unique.
\<close>

lemma CreateWorker_duplicate:
  assumes t: "db_tables (client e) ''workers'' = Some t"
    and u: "tbl_unique t = [''hostname'']"
    and ok: "fst (CreateWorker w1 e) = Inr w1'"
    and same: "Worker_Hostname w2 = Worker_Hostname w1"
  shows "fst (CreateWorker w2 (snd (CreateWorker w1 e)))
      = Inl (ErrUniqueViolation ''workers'' ''hostname'')"
    and "db_tables (client (snd (CreateWorker w2 (snd (CreateWorker w1 e)))))
      = db_tables (client (snd (CreateWorker w1 e)))"
proof -
  let ?r1 = "encode_worker (w1\<lparr>Worker_ID := tbl_seq t + 1\<rparr>)"
  let ?t1 = "t\<lparr>tbl_rows := tbl_rows t @ [?r1], tbl_seq := tbl_seq t + 1\<rparr>"
  have v: "violated t ?r1 = None"
    using ok CreateWorker_Some(1) [OF t, of w1] by (simp split: option.splits)
  then have t1: "db_tables (client (snd (CreateWorker w1 e))) ''workers'' = Some ?t1"
    using CreateWorker_Some(2) [OF t, of w1] by simp
  have v2: "violated ?t1 (encode_worker (w2\<lparr>Worker_ID := n\<rparr>)) = Some ''hostname''" for n
    using u same by (simp add: violated_def sql_eq_def)
  show "fst (CreateWorker w2 (snd (CreateWorker w1 e)))
      = Inl (ErrUniqueViolation ''workers'' ''hostname'')"
    using CreateWorker_Some(1) [OF t1, of w2] by (simp add: v2)
  show "db_tables (client (snd (CreateWorker w2 (snd (CreateWorker w1 e)))))
      = db_tables (client (snd (CreateWorker w1 e)))"
    using CreateWorker_Some(2) [OF t1, of w2] by (simp add: v2)
qed


text \<open>
  C4. Both statements declare \<^verbatim>\<open>UNIQUE(hostname)\<close>. On a workers table created by
  \<open>CreateWorkerTable\<close> with any driver, creating a worker succeeds, and creating a second
  worker with the same hostname fails with the uniqueness violation of column hostname; the
  tables are left as they were, and the first worker is still returned by Get and List.
\<close>

theorem Worker_hostname_unique:
  assumes "db_tables (client e) ''workers'' = None"
    and "Worker_Hostname w2 = Worker_Hostname w1"
  shows "unique_columns (tokens [] CreatePostgresTable) = [''hostname'']
    \<and> unique_columns (tokens [] CreateSqliteTable) = [''hostname'']
    \<and> fst (CreateWorker w1 (snd (CreateWorkerTable K e driver))) = Inr (w1\<lparr>Worker_ID := 1\<rparr>)
    \<and> fst (CreateWorker w2 (snd (CreateWorker w1 (snd (CreateWorkerTable K e driver)))))
        = Inl (ErrUniqueViolation ''workers'' ''hostname'')
    \<and> db_tables (client (snd (CreateWorker w2
          (snd (CreateWorker w1 (snd (CreateWorkerTable K e driver)))))))
        = db_tables (client (snd (CreateWorker w1 (snd (CreateWorkerTable K e driver)))))
    \<and> fst (GetWorker 1 (snd (CreateWorker w2
          (snd (CreateWorker w1 (snd (CreateWorkerTable K e driver)))))))
        = Inr (w1\<lparr>Worker_ID := 1\<rparr>)
    \<and> fst (ListWorkers (snd (CreateWorker w2
          (snd (CreateWorker w1 (snd (CreateWorkerTable K e driver)))))))
        = Inr [w1\<lparr>Worker_ID := 1\<rparr>]"
proof -
  let ?e1 = "snd (CreateWorkerTable K e driver)"
  let ?e2 = "snd (CreateWorker w1 ?e1)"
  let ?e3 = "snd (CreateWorker w2 ?e2)"
  let ?w = "w1\<lparr>Worker_ID := 1\<rparr>"
  let ?t2 = "\<lparr>tbl_unique = [''hostname''], tbl_rows = [encode_worker ?w], tbl_seq = 1\<rparr>"
  have u1: "unique_columns (tokens [] CreatePostgresTable) = [''hostname'']"
    by (simp add: CreatePostgresTable_def unlines_def is_space_def is_punct_def flush_def)
  have u2: "unique_columns (tokens [] CreateSqliteTable) = [''hostname'']"
    by (simp add: CreateSqliteTable_def unlines_def is_space_def is_punct_def flush_def)
  have t1: "db_tables (client ?e1) ''workers'' = Some (new_table [''hostname''])"
    by (rule CreateWorkerTable_fresh [OF assms(1)])
  have v1: "violated (new_table [''hostname'']) r = None" for r
    by (simp add: violated_def new_table_def)
  have r1: "fst (CreateWorker w1 ?e1) = Inr ?w"
    using CreateWorker_Some(1) [OF t1, of w1] by (simp add: v1) (simp add: new_table_def)
  have t2: "db_tables (client ?e2) ''workers'' = Some ?t2"
    using CreateWorker_Some(2) [OF t1, of w1] by (simp add: v1) (simp add: new_table_def)
  have v2: "violated ?t2 (encode_worker (w2\<lparr>Worker_ID := n\<rparr>)) = Some ''hostname''" for n
    using assms(2) by (simp add: violated_def sql_eq_def)
  have r2: "fst (CreateWorker w2 ?e2) = Inl (ErrUniqueViolation ''workers'' ''hostname'')"
    using CreateWorker_Some(1) [OF t2, of w2] by (simp add: v2)
  have t3: "db_tables (client ?e3) = db_tables (client ?e2)"
    using CreateWorker_Some(2) [OF t2, of w2] by (simp add: v2)
  have rows: "rows_where ''id'' 1 ?t2 = [encode_worker ?w]"
    by (simp add: rows_where_def)
  have g: "fst (GetWorker 1 ?e3) = Inr ?w"
    using fst_Take_single [of "''id''" 1 "''workers''" "client ?e3"] t2 rows
    by (simp add: GetWorker_def fst_with_client t3 decode_encode_worker)
  have l: "fst (ListWorkers ?e3) = Inr [?w]"
    using t2
    by (simp add: ListWorkers_def fst_with_client Find_def Let_def select_rows_all t3
        decode_encode_worker)
  from u1 u2 r1 r2 t3 g l show ?thesis by blast
qed

theorem Worker_hostname_unique_witness:
  "fst (CreateWorker worker_dup
          (snd (CreateWorker worker_one (snd (CreateWorkerTable vela_constants new_engine ''postgres'')))))
     = Inl (ErrUniqueViolation ''workers'' ''hostname'')
   \<and> fst (CreateWorker worker_dup
          (snd (CreateWorker worker_one (snd (CreateWorkerTable vela_constants new_engine ''sqlite3'')))))
     = Inl (ErrUniqueViolation ''workers'' ''hostname'')
   \<and> fst (GetWorker 1 (snd (CreateWorker worker_dup
          (snd (CreateWorker worker_one (snd (CreateWorkerTable vela_constants new_engine ''sqlite3'')))))))
     = Inr worker_one"
proof -
  have h: "db_tables (client new_engine) ''workers'' = None" by (simp add: new_engine_def)
  have k: "Worker_Hostname worker_dup = Worker_Hostname worker_one"
    by (simp add: worker_dup_def worker_one_def)
  have w: "worker_one\<lparr>Worker_ID := 1\<rparr> = worker_one" by (simp add: worker_one_def)
  show ?thesis
    using Worker_hostname_unique [OF h k, of vela_constants "''postgres''"]
      Worker_hostname_unique [OF h k, of vela_constants "''sqlite3''"] w
    by simp
qed

end
